theory Spec2Isabelle
  imports Complex_Main "HOL-Library.AList"
begin

section \<open>JavaScript strings\<close>

text \<open>
  A JavaScript string is modelled as a \<open>string\<close> (a list of 8-bit characters); the
  functions below are the ASCII/Latin-1 restrictions of the library functions the vault
  calls: \<^verbatim>\<open>toLowerCase\<close> maps \<open>A..Z\<close> to \<open>a..z\<close>, and the white space of
  \<^verbatim>\<open>\s\<close> and of \<^verbatim>\<open>trim\<close> is tab, line feed, vertical tab, form feed,
  carriage return, space and no-break space.
\<close>

definition is_space :: "char \<Rightarrow> bool" where
  "is_space c =
     (c \<in> set [CHR 0x09, CHR 0x0A, CHR 0x0B, CHR 0x0C, CHR 0x0D, CHR 0x20, CHR 0xA0])"

definition toLowerCase_char :: "char \<Rightarrow> char" where
  "toLowerCase_char c =
     (case map_of (zip ''ABCDEFGHIJKLMNOPQRSTUVWXYZ'' ''abcdefghijklmnopqrstuvwxyz'') c of
        Some d \<Rightarrow> d
      | None \<Rightarrow> c)"

definition toLowerCase :: "string \<Rightarrow> string" where
  "toLowerCase s = map toLowerCase_char s"

text \<open>
  \<^verbatim>\<open>s.split(/\s+/)\<close>: the pieces between maximal runs of white space. A string that
  starts or ends with white space yields an empty first or last piece, and the empty
  string yields one empty piece. \<open>cur\<close> is the piece being read (reversed) and
  \<open>in_sep\<close> tells that the previous character was white space.
\<close>

fun split_ws_aux :: "string \<Rightarrow> bool \<Rightarrow> string \<Rightarrow> string list" where
  "split_ws_aux cur in_sep [] = [rev cur]"
| "split_ws_aux cur in_sep (c # cs) =
     (if is_space c
      then (if in_sep then split_ws_aux cur True cs else rev cur # split_ws_aux [] True cs)
      else split_ws_aux (c # cur) False cs)"

definition split_ws :: "string \<Rightarrow> string list" where
  "split_ws s = split_ws_aux [] False s"

text \<open>\<^verbatim>\<open>s.trim()\<close>.\<close>

definition trim :: "string \<Rightarrow> string" where
  "trim s = rev (dropWhile is_space (rev (dropWhile is_space s)))"

text \<open>\<^verbatim>\<open>x || ''\<close> for a field that may be absent.\<close>

fun or_empty :: "string option \<Rightarrow> string" where
  "or_empty None = []"
| "or_empty (Some s) = s"

section \<open>Bag-of-words embeddings (electron/storage.cjs)\<close>

text \<open>
  An embedding is the object that \<^verbatim>\<open>generateEmbedding\<close> builds: word \<open>\<mapsto>\<close> count,
  kept here as an association list with distinct keys. Only the key set is ever read
  (by \<^verbatim>\<open>semanticSimilarity\<close>). The word \<^verbatim>\<open>__proto__\<close> never becomes a key: the
  assignment \<^verbatim>\<open>embedding["__proto__"] = ...\<close> of a non-object value is ignored by
  JavaScript.
\<close>

type_synonym embedding = "(string \<times> nat) list"

definition count_word :: "embedding \<Rightarrow> string \<Rightarrow> embedding" where
  "count_word embedding word =
     (if word = ''__proto__'' then embedding
      else AList.update word
             ((case map_of embedding word of Some n \<Rightarrow> n | None \<Rightarrow> 0) + 1) embedding)"

definition generateEmbedding :: "string \<Rightarrow> embedding" where
  "generateEmbedding text =
     (let words = filter (\<lambda>w. 2 < length w) (split_ws (toLowerCase text))
      in foldl count_word [] words)"

text \<open>
  \<^verbatim>\<open>semanticSimilarity\<close>: the Jaccard index of the two key sets. The JavaScript result is
  the double nearest to the quotient; the model keeps the exact rational.
\<close>

definition semanticSimilarity :: "embedding \<Rightarrow> embedding \<Rightarrow> rat" where
  "semanticSimilarity embedding1 embedding2 =
     (let words1 = remdups (map fst embedding1);
          words2 = remdups (map fst embedding2);
          intersection = filter (\<lambda>w. w \<in> set words2) words1;
          union = remdups (words1 @ words2)
      in if length union = 0 then 0
         else of_nat (length intersection) / of_nat (length union))"

section \<open>More string functions\<close>

text \<open>\<^verbatim>\<open>s.startsWith(p)\<close> and \<^verbatim>\<open>s.includes(p)\<close>.\<close>

definition startsWith :: "string \<Rightarrow> string \<Rightarrow> bool" where
  "startsWith s p = (take (length p) s = p)"

fun includes_str :: "string \<Rightarrow> string \<Rightarrow> bool" where
  "includes_str [] p = (p = [])"
| "includes_str (c # cs) p = (startsWith (c # cs) p \<or> includes_str cs p)"

text \<open>
  \<^verbatim>\<open>s.replace(p, '')\<close> with a string pattern: the first occurrence of \<open>p\<close> is removed.
\<close>

fun replace_first :: "string \<Rightarrow> string \<Rightarrow> string" where
  "replace_first [] p = []"
| "replace_first (c # cs) p =
     (if p \<noteq> [] \<and> startsWith (c # cs) p then drop (length p) (c # cs)
      else c # replace_first cs p)"

text \<open>\<^verbatim>\<open>(s.match(/c/g) || []).length\<close> for a set of characters.\<close>

definition count_chars :: "char list \<Rightarrow> string \<Rightarrow> nat" where
  "count_chars cs s = length (filter (\<lambda>c. c \<in> set cs) s)"

text \<open>\<^verbatim>\<open>(s.match(/=>/g) || []).length\<close>: the occurrences of \<^verbatim>\<open>=>\<close>, which cannot overlap.\<close>

fun count_arrows :: "string \<Rightarrow> nat" where
  "count_arrows (a # b # cs) =
     (if a = CHR ''='' \<and> b = CHR ''>'' then Suc (count_arrows cs) else count_arrows (b # cs))"
| "count_arrows cs = 0"

section \<open>Paths (Node's \<^verbatim>\<open>path\<close> module, POSIX flavour)\<close>

text \<open>
  \<^verbatim>\<open>path.basename(p)\<close>: the last portion of the path, trailing separators ignored.
  \<^verbatim>\<open>path.extname(p)\<close>: from the last \<^verbatim>\<open>.\<close> of the base name to its end; empty when the base
  name has no dot, when its only dot is its first character, and for \<^verbatim>\<open>..\<close>.
  \<^verbatim>\<open>path.join(dir, name)\<close> is used with a single segment \<open>name\<close> (a hex digest and an
  extension), so it is the concatenation with a separator.
\<close>

definition basename :: "string \<Rightarrow> string" where
  "basename p =
     rev (takeWhile (\<lambda>c. c \<noteq> CHR ''/'') (dropWhile (\<lambda>c. c = CHR ''/'') (rev p)))"

definition extname :: "string \<Rightarrow> string" where
  "extname p =
     (let b = basename p;
          after_dot = rev (takeWhile (\<lambda>c. c \<noteq> CHR ''.'') (rev b));
          before_dot = take (length b - length after_dot - 1) b
      in if CHR ''.'' \<notin> set b \<or> before_dot = [] \<or> b = ''..'' then []
         else CHR ''.'' # after_dot)"

definition path_join :: "string \<Rightarrow> string \<Rightarrow> string" where
  "path_join dir name = dir @ ''/'' @ name"

section \<open>Validation and categorisation (electron/storage.cjs)\<close>

definition FILE_TYPE_MAP :: "(string \<times> string) list" where
  "FILE_TYPE_MAP =
     [(''.png'', ''images''), (''.jpg'', ''images''), (''.jpeg'', ''images''),
      (''.gif'', ''images''), (''.webp'', ''images''), (''.bmp'', ''images''),
      (''.svg'', ''images''), (''.ico'', ''images''),
      (''.pdf'', ''documents''), (''.doc'', ''documents''), (''.docx'', ''documents''),
      (''.txt'', ''documents''), (''.rtf'', ''documents''), (''.tex'', ''documents''),
      (''.mp4'', ''videos''), (''.mkv'', ''videos''), (''.webm'', ''videos''),
      (''.avi'', ''videos''), (''.mov'', ''videos''),
      (''.csv'', ''csv''), (''.tsv'', ''csv'')]"

definition audio_types :: "string list" where
  "audio_types =
     [''.mp3'', ''.wav'', ''.flac'', ''.aac'', ''.wma'', ''.m4a'', ''.ogg'', ''.opus'']"

definition executable_types :: "string list" where
  "executable_types =
     [''.exe'', ''.msi'', ''.bat'', ''.cmd'', ''.com'', ''.scr'', ''.vbs'', ''.ps1'',
      ''.apk'', ''.app'', ''.deb'', ''.rpm'']"

definition archive_types :: "string list" where
  "archive_types =
     [''.zip'', ''.rar'', ''.7z'', ''.tar'', ''.gz'', ''.bz2'', ''.iso'', ''.dmg'']"

definition system_types :: "string list" where
  "system_types =
     [''.sys'', ''.dll'', ''.so'', ''.dylib'', ''.icns'', ''.jar'', ''.class'', ''.pyc'']"

definition REJECTED_TYPES :: "string list" where
  "REJECTED_TYPES = audio_types @ executable_types @ archive_types @ system_types"

definition isRejectedFile :: "string \<Rightarrow> bool" where
  "isRejectedFile filePath = (toLowerCase (extname filePath) \<in> set REJECTED_TYPES)"

definition getRejectionReason :: "string \<Rightarrow> string" where
  "getRejectionReason filePath =
     (let ext = toLowerCase (extname filePath)
      in if ext = [] then ''File has no extension''
         else if ext \<in> set audio_types then ''Audio files not supported''
         else if ext \<in> set executable_types then ''Executable files not allowed''
         else if ext \<in> set archive_types then ''Archive files not supported''
         else if ext \<in> set (system_types @ [''.o'']) then ''System files not supported''
         else ''File type not supported'')"

definition detectCategoryFromFile :: "string \<Rightarrow> string" where
  "detectCategoryFromFile filePath =
     (case map_of FILE_TYPE_MAP (toLowerCase (extname filePath)) of
        Some category \<Rightarrow> category
      | None \<Rightarrow> ''documents'')"

definition mimeTypes :: "(string \<times> string) list" where
  "mimeTypes =
     [(''.png'', ''image/png''), (''.jpg'', ''image/jpeg''), (''.jpeg'', ''image/jpeg''),
      (''.gif'', ''image/gif''), (''.webp'', ''image/webp''), (''.bmp'', ''image/bmp''),
      (''.svg'', ''image/svg+xml''), (''.pdf'', ''application/pdf''),
      (''.doc'', ''application/msword''),
      (''.docx'',
       ''application/vnd.openxmlformats-officedocument.wordprocessingml.document''),
      (''.txt'', ''text/plain''), (''.csv'', ''text/csv''), (''.mp4'', ''video/mp4''),
      (''.mkv'', ''video/x-matroska''), (''.webm'', ''video/webm''),
      (''.avi'', ''video/x-msvideo''), (''.mov'', ''video/quicktime'')]"

definition getMimeType :: "string \<Rightarrow> string" where
  "getMimeType filePath =
     (case map_of mimeTypes (toLowerCase (extname filePath)) of
        Some m \<Rightarrow> m
      | None \<Rightarrow> ''application/octet-stream'')"

text \<open>
  \<^verbatim>\<open>isURLContent\<close>: the pattern \<^verbatim>\<open>/^(https?:\/\/|www\.)\S+/i\<close> on the trimmed text.
\<close>

definition isURLContent :: "string \<Rightarrow> bool" where
  "isURLContent text =
     (let t = trim text
      in \<exists>p \<in> set [''https://'', ''http://'', ''www.''].
           startsWith (toLowerCase t) p \<and>
           (case drop (length p) t of [] \<Rightarrow> False | c # _ \<Rightarrow> \<not> is_space c))"

definition codeKeywords :: "string list" where
  "codeKeywords =
     [''function '', ''const '', ''let '', ''var '', ''class '', ''import '', ''export '',
      ''require('', ''ipcmain.'', ''ipcrenderer.'', ''async '', ''await '', ''public '',
      ''private '', ''def '', ''#include'']"

definition detectCategoryFromText :: "string \<Rightarrow> string" where
  "detectCategoryFromText text =
     (let trimmed = trim text
      in if isURLContent trimmed then ''links''
         else let lower = toLowerCase trimmed
           in if \<exists>kw \<in> set codeKeywords. includes_str lower kw then ''code''
              else let semiCount = count_chars '';'' trimmed;
                       braceCount = count_chars ''{}'' trimmed;
                       arrowCount = count_arrows trimmed
                in if 3 \<le> semiCount + braceCount + arrowCount then ''code''
                   else if 500 < length trimmed then ''notes''
                   else ''ideas'')"

definition generateTextTitle :: "string \<Rightarrow> string" where
  "generateTextTitle text =
     (let trimmed = trim text
      in if isURLContent trimmed
         then ''Link: '' @ take 50 trimmed @ (if 50 < length trimmed then ''...'' else [])
         else let firstLine = trim (takeWhile (\<lambda>c. c \<noteq> CHR 0x0A) trimmed)
           in if 50 < length firstLine then take 47 firstLine @ ''...''
              else if firstLine = [] then ''Untitled'' else firstLine)"

section \<open>The vault on JSON files (electron/storage.cjs)\<close>

subsection \<open>Items, embedding records and the vault state\<close>

text \<open>
  The unified item of \<^verbatim>\<open>storage.cjs\<close>. \<open>item_id\<close> is the field \<^verbatim>\<open>id\<close> and
  \<open>size_bytes\<close> the metadata key \<^verbatim>\<open>size\<close>. An optional field is an \<open>option\<close>.
  \<^verbatim>\<open>createdAt\<close> (an ISO date string in the files) is kept as the number of milliseconds
  that \<^verbatim>\<open>new Date(createdAt).getTime()\<close> reads from it. \<open>path\<close> and \<open>timestamp\<close> are
  fields of legacy items that \<^verbatim>\<open>deleteItem\<close> and \<^verbatim>\<open>smartSearch\<close> still read; no
  creation function of this file writes them. The metadata keys written only by the
  background extraction (thumbnail, page count, caption, LLM fields) are left out.
\<close>

datatype item_type = Text | Image | File | Link

record item_metadata =
  createdAt :: "int option"
  source :: "string option"
  filename :: "string option"
  size_bytes :: "nat option"
  mimeType :: "string option"
  url :: "string option"
  pageTitle :: "string option"
  extractedText :: "string option"

record item =
  item_id :: string
  type :: item_type
  title :: string
  category :: string
  content :: "string option"
  hash :: "string option"
  storagePath :: "string option"
  searchableText :: string
  metadata :: item_metadata
  path :: "string option"
  timestamp :: "int option"

text \<open>One record of \<^verbatim>\<open>embeddings.json\<close>: \<^verbatim>\<open>{ vector, metadata }\<close>.\<close>

record embedding_record =
  vector :: embedding
  e_createdAt :: "int option"
  e_source :: string
  e_type :: item_type
  e_category :: string
  e_storagePath :: "string option"

text \<open>
  Work deferred with \<^verbatim>\<open>setImmediate\<close>: it runs after the call that scheduled it has
  returned. The extraction and enrichment themselves (thumbnails, OCR, PDF parsing, the
  local language model) are outside this development.
\<close>

datatype task = MetadataExtraction item string | LLMEnrichment item

text \<open>
  The state the storage module works on: the file system (path \<open>\<mapsto>\<close> bytes; it holds the
  user's files and the blobs copied into the vault directory), the array of
  \<^verbatim>\<open>items.json\<close>, the object of \<^verbatim>\<open>embeddings.json\<close> (id \<open>\<mapsto>\<close> record, in insertion
  order) and the queue of deferred tasks. Writes to the two JSON files are taken to
  succeed (\<^verbatim>\<open>saveItems\<close> and \<^verbatim>\<open>saveEmbeddingsFile\<close> log a failed write and go on).
\<close>

record vault =
  files :: "string \<rightharpoonup> string"
  items :: "item list"
  embeddings :: "(string \<times> embedding_record) list"
  scheduled :: "task list"

text \<open>
  What the module takes from its environment: the vault directory
  (\<^verbatim>\<open>app.getPath("userData")/vault\<close>) and the SHA-256 hex digest of Node's
  \<^verbatim>\<open>crypto\<close>. Fresh ids (\<^verbatim>\<open>uuidv4()\<close>) and the clock (\<^verbatim>\<open>new Date()\<close>) are
  arguments of the functions that call them.
\<close>

record env =
  VAULT_DIR :: string
  sha256 :: "string \<Rightarrow> string"

subsection \<open>Embedding records\<close>

definition computeItemEmbedding :: "item \<Rightarrow> embedding" where
  "computeItemEmbedding it =
     (let text =
        (case type it of
           Text \<Rightarrow> or_empty (content it)
         | Link \<Rightarrow> title it @ '' '' @ or_empty (url (metadata it)) @ '' '' @
                    or_empty (pageTitle (metadata it))
         | _ \<Rightarrow> title it @ '' '' @ or_empty (filename (metadata it)) @ '' '' @
                 or_empty (extractedText (metadata it)))
      in generateEmbedding text)"

text \<open>\<^verbatim>\<open>x || "overlay"\<close>.\<close>

fun or_overlay :: "string option \<Rightarrow> string" where
  "or_overlay None = ''overlay''"
| "or_overlay (Some s) = (if s = [] then ''overlay'' else s)"

definition updateItemEmbedding :: "item \<Rightarrow> vault \<Rightarrow> vault" where
  "updateItemEmbedding it s =
     s\<lparr>embeddings :=
         AList.update (item_id it)
           \<lparr>vector = computeItemEmbedding it,
            e_createdAt = createdAt (metadata it),
            e_source = or_overlay (source (metadata it)),
            e_type = type it,
            e_category = category it,
            e_storagePath = storagePath it\<rparr>
           (embeddings s)\<rparr>"

subsection \<open>Creating items\<close>

definition createTextItem :: "string \<Rightarrow> int \<Rightarrow> string \<Rightarrow> item" where
  "createTextItem uuid now text =
     \<lparr>item_id = uuid, type = Text, title = generateTextTitle text,
      category = detectCategoryFromText text, content = Some text,
      hash = None, storagePath = None, searchableText = toLowerCase text,
      metadata =
        \<lparr>createdAt = Some now, source = Some ''overlay'', filename = None,
         size_bytes = None, mimeType = None, url = None, pageTitle = None,
         extractedText = None\<rparr>,
      path = None, timestamp = None\<rparr>"

text \<open>\<^verbatim>\<open>createLinkItem(url, title = null)\<close>; \<^verbatim>\<open>title || cleanUrl\<close>.\<close>

definition createLinkItem :: "string \<Rightarrow> int \<Rightarrow> string \<Rightarrow> string option \<Rightarrow> item" where
  "createLinkItem uuid now link_url link_title =
     (let cleanUrl = trim link_url;
          linkTitle = (if or_empty link_title = [] then cleanUrl else or_empty link_title)
      in \<lparr>item_id = uuid, type = Link, title = linkTitle, category = ''links'',
          content = None, hash = None, storagePath = None,
          searchableText = toLowerCase cleanUrl,
          metadata =
            \<lparr>createdAt = Some now, source = Some ''overlay'', filename = None,
             size_bytes = None, mimeType = None, url = Some cleanUrl,
             pageTitle = link_title, extractedText = None\<rparr>,
          path = None, timestamp = None\<rparr>)"

text \<open>
  The errors \<^verbatim>\<open>createFileItem\<close> throws, with their messages. A function that can throw
  returns the error or its result together with the state it leaves.
\<close>

datatype error = PathRequired | FileDoesNotExist string | FileRejected string

fun message :: "error \<Rightarrow> string" where
  "message PathRequired = ''File path is required and must be a non-empty string''"
| "message (FileDoesNotExist p) = ''File does not exist: '' @ p"
| "message (FileRejected reason) = ''File rejected: '' @ reason"

definition scheduleMetadataExtraction :: "item \<Rightarrow> string \<Rightarrow> vault \<Rightarrow> vault" where
  "scheduleMetadataExtraction it sourceFilePath s =
     s\<lparr>scheduled := scheduled s @ [MetadataExtraction it sourceFilePath]\<rparr>"

text \<open>\<^verbatim>\<open>OLLAMA_ENABLED\<close> is the constant \<^verbatim>\<open>true\<close>.\<close>

definition scheduleLLMEnrichment :: "item \<Rightarrow> vault \<Rightarrow> vault" where
  "scheduleLLMEnrichment it s = s\<lparr>scheduled := scheduled s @ [LLMEnrichment it]\<rparr>"

definition vaultFilePath_of :: "env \<Rightarrow> string \<Rightarrow> string \<Rightarrow> string" where
  "vaultFilePath_of e fileHash fileName = path_join (VAULT_DIR e) (fileHash @ extname fileName)"

definition createFileItem ::
  "env \<Rightarrow> string \<Rightarrow> int \<Rightarrow> string \<Rightarrow> vault \<Rightarrow> (error + item) \<times> vault" where
  "createFileItem e uuid now filePath s =
     (if trim filePath = [] then (Inl PathRequired, s)
      else case files s filePath of
        None \<Rightarrow> (Inl (FileDoesNotExist filePath), s)
      | Some fileContent \<Rightarrow>
          if isRejectedFile filePath
          then (Inl (FileRejected (getRejectionReason filePath)), s)
          else
            let fileName = basename filePath;
                fileHash = sha256 e fileContent;
                category = detectCategoryFromFile filePath;
                fileType = (if category = ''images'' then Image else File);
                vaultFilePath = vaultFilePath_of e fileHash fileName;
                s1 = (if files s vaultFilePath = None
                      then s\<lparr>files := (files s)(vaultFilePath \<mapsto> fileContent)\<rparr>
                      else s);
                it = \<lparr>item_id = uuid, type = fileType, title = fileName,
                      category = category, content = None, hash = Some fileHash,
                      storagePath = Some vaultFilePath,
                      searchableText = toLowerCase fileName,
                      metadata =
                        \<lparr>createdAt = Some now, source = Some ''overlay'',
                         filename = Some fileName,
                         size_bytes = Some (length fileContent),
                         mimeType = Some (getMimeType filePath), url = None,
                         pageTitle = None, extractedText = None\<rparr>,
                      path = None, timestamp = None\<rparr>
            in (Inr it, updateItemEmbedding it (scheduleMetadataExtraction it filePath s1)))"

subsection \<open>Adding and deleting items\<close>

definition addItem :: "item \<Rightarrow> vault \<Rightarrow> item \<times> vault" where
  "addItem it s =
     (it, scheduleLLMEnrichment it (updateItemEmbedding it (s\<lparr>items := items s @ [it]\<rparr>)))"

definition addTextItem :: "string \<Rightarrow> int \<Rightarrow> string \<Rightarrow> vault \<Rightarrow> item \<times> vault" where
  "addTextItem uuid now text s = addItem (createTextItem uuid now text) s"

definition addFileItem ::
  "env \<Rightarrow> string \<Rightarrow> int \<Rightarrow> string \<Rightarrow> vault \<Rightarrow> (error + item) \<times> vault" where
  "addFileItem e uuid now filePath s =
     (case createFileItem e uuid now filePath s of
        (Inl err, s') \<Rightarrow> (Inl err, s')
      | (Inr it, s') \<Rightarrow> (case addItem it s' of (it', s'') \<Rightarrow> (Inr it', s'')))"

text \<open>
  \<^verbatim>\<open>deleteItem\<close>. For an item of type \<^verbatim>\<open>"file"\<close> it unlinks \<^verbatim>\<open>item.path\<close> inside a
  \<^verbatim>\<open>try\<close>: when the item has no \<^verbatim>\<open>path\<close> field, or no file is there, the call throws,
  the error is logged, and the deletion goes on.
\<close>

definition deleteItem :: "string \<Rightarrow> vault \<Rightarrow> vault" where
  "deleteItem i s =
     (let found = find (\<lambda>it. item_id it = i) (items s);
          files' =
            (case found of
               None \<Rightarrow> files s
             | Some it \<Rightarrow>
                 if type it = File
                 then (case path it of None \<Rightarrow> files s | Some p \<Rightarrow> (files s)(p := None))
                 else files s)
      in s\<lparr>files := files', items := filter (\<lambda>it. item_id it \<noteq> i) (items s)\<rparr>)"

subsection \<open>Search intent\<close>

text \<open>
  \<^verbatim>\<open>parseSearchIntent\<close>. The four time ranges are built from \<^verbatim>\<open>new Date()\<close> with local
  calendar arithmetic; they come in with the clock. \<^verbatim>\<open>contentType\<close> is one of the
  strings \<^verbatim>\<open>image\<close>, \<^verbatim>\<open>note\<close>, \<^verbatim>\<open>file\<close>, \<^verbatim>\<open>link\<close>. The fields \<^verbatim>\<open>timePhrase\<close> and
  \<^verbatim>\<open>originalQuery\<close>, read only to word the explanation shown with the results, are left
  out, and so is that explanation.
\<close>

record clock =
  now_ms :: int
  todayRange :: "int \<times> int"
  yesterdayRange :: "int \<times> int"
  lastWeekRange :: "int \<times> int"
  lastMonthRange :: "int \<times> int"

datatype content_type = CImage | CNote | CFile | CLink

record search_intent =
  timeFilter :: "(int \<times> int) option"
  contentType :: "content_type option"
  topicKeywords :: "string option"

definition timeSignals :: "clock \<Rightarrow> (string \<times> (int \<times> int)) list" where
  "timeSignals clk =
     [(''today'', todayRange clk), (''yesterday'', yesterdayRange clk),
      (''last week'', lastWeekRange clk), (''last month'', lastMonthRange clk)]"

definition typeSignals :: "(content_type \<times> string list) list" where
  "typeSignals =
     [(CImage, [''image'', ''picture'', ''photo'', ''screenshot'', ''png'', ''jpg'', ''jpeg'']),
      (CNote, [''note'', ''notes'', ''text'', ''idea'', ''ideas'']),
      (CFile, [''file'', ''document'', ''pdf'', ''doc'', ''video'']),
      (CLink, [''link'', ''url'', ''website'', ''http''])]"

text \<open>
  \<^verbatim>\<open>s.replace(/\b(show|find|open|get|search|look for)\b/g, '')\<close>. \<open>verb_at prev s\<close> is
  the length of the verb the pattern matches at the start of \<open>s\<close>, where \<open>prev\<close> is the
  character before; \<open>remove_verbs\<close> scans the string and skips every match.
\<close>

definition is_word_char :: "char \<Rightarrow> bool" where
  "is_word_char c =
     (c \<in> set ''abcdefghijklmnopqrstuvwxyzABCDEFGHIJKLMNOPQRSTUVWXYZ0123456789_'')"

definition search_verbs :: "string list" where
  "search_verbs = [''show'', ''find'', ''open'', ''get'', ''search'', ''look for'']"

definition verb_at :: "char option \<Rightarrow> string \<Rightarrow> nat option" where
  "verb_at prev s =
     (if (case prev of None \<Rightarrow> False | Some c \<Rightarrow> is_word_char c) then None
      else map_option length
             (find (\<lambda>v. startsWith s v \<and>
                         (case drop (length v) s of [] \<Rightarrow> True | c # _ \<Rightarrow> \<not> is_word_char c))
                search_verbs))"

fun remove_verbs :: "nat \<Rightarrow> char option \<Rightarrow> string \<Rightarrow> string" where
  "remove_verbs skip prev [] = []"
| "remove_verbs skip prev (c # cs) =
     (if 0 < skip then remove_verbs (skip - 1) (Some c) cs
      else case verb_at prev (c # cs) of
             Some n \<Rightarrow> remove_verbs (n - 1) (Some c) cs
           | None \<Rightarrow> c # remove_verbs 0 (Some c) cs)"

definition parseSearchIntent :: "clock \<Rightarrow> string \<Rightarrow> search_intent" where
  "parseSearchIntent clk query =
     (let lowerQuery = toLowerCase query;
          timeFilter =
            map_option snd (find (\<lambda>(phrase, range). includes_str lowerQuery phrase)
                              (timeSignals clk));
          contentType =
            map_option fst (find (\<lambda>(t, keywords). \<exists>keyword \<in> set keywords.
                                     includes_str lowerQuery keyword) typeSignals);
          topic1 = foldl replace_first lowerQuery (map fst (timeSignals clk));
          topic2 = foldl replace_first topic1 (concat (map snd typeSignals));
          topicKeywords = trim (remove_verbs 0 None topic2)
      in \<lparr>timeFilter = timeFilter, contentType = contentType,
          topicKeywords = (if topicKeywords = [] then None else Some topicKeywords)\<rparr>)"

subsection \<open>Smart search\<close>

text \<open>
  A result of \<^verbatim>\<open>smartSearch\<close> is the item with its four scores (\<^verbatim>\<open>_searchScore\<close>,
  \<^verbatim>\<open>_semanticScore\<close>, \<^verbatim>\<open>_recencyScore\<close>, \<^verbatim>\<open>_typeScore\<close>). Scores are JavaScript
  doubles; the model computes them as exact rationals.
\<close>

record scored_item =
  scored :: item
  searchScore :: rat
  semanticScore :: rat
  recencyScore :: rat
  typeScore :: rat

record search_result =
  results :: "scored_item list"
  intent :: search_intent
  totalItems :: nat
  filteredCount :: nat

text \<open>\<^verbatim>\<open>(item.metadata && item.metadata.createdAt) || item.timestamp || null\<close>.\<close>

definition created_of :: "item \<Rightarrow> int option" where
  "created_of it =
     (case createdAt (metadata it) of Some t \<Rightarrow> Some t | None \<Rightarrow> timestamp it)"

definition backfill :: "item list \<Rightarrow> (string \<times> embedding_record) list" where
  "backfill its =
     foldl (\<lambda>backfilled it.
              AList.update (item_id it)
                \<lparr>vector = computeItemEmbedding it,
                 e_createdAt = created_of it,
                 e_source = or_overlay (source (metadata it)),
                 e_type = type it,
                 e_category = category it,
                 e_storagePath = storagePath it\<rparr>
                backfilled)
       [] its"

text \<open>The callback of \<^verbatim>\<open>items.filter\<close>: the time filter, then the content type filter.\<close>

definition matches_intent :: "search_intent \<Rightarrow> item \<Rightarrow> bool" where
  "matches_intent i it =
     ((case timeFilter i of
         None \<Rightarrow> True
       | Some (range_start, range_end) \<Rightarrow>
           (case created_of it of
              None \<Rightarrow> False
            | Some itemDate \<Rightarrow> \<not> (itemDate < range_start \<or> range_end < itemDate)))
      \<and>
      (case contentType i of
         None \<Rightarrow> True
       | Some CImage \<Rightarrow> type it = Image \<or> category it = ''images''
       | Some CNote \<Rightarrow>
           type it = Text \<or> category it = ''notes'' \<or> category it = ''ideas''
       | Some CLink \<Rightarrow> \<not> (type it \<noteq> Link \<and> category it \<noteq> ''links'')
       | Some CFile \<Rightarrow>
           \<not> (type it \<notin> {Image, File} \<and>
              category it \<notin> {''documents'', ''images'', ''videos'', ''csv''})))"

definition score_item ::
  "clock \<Rightarrow> search_intent \<Rightarrow> embedding \<Rightarrow> (string \<times> embedding_record) list \<Rightarrow> item
     \<Rightarrow> scored_item" where
  "score_item clk i queryEmbedding effectiveEmbeddings it =
     (let itemEmbedding =
            (case map_of effectiveEmbeddings (item_id it) of
               None \<Rightarrow> []
             | Some entry \<Rightarrow> vector entry);
          semantic = semanticSimilarity queryEmbedding itemEmbedding;
          recency =
            (case created_of it of
               None \<Rightarrow> 0
             | Some created \<Rightarrow>
                 (let ageInDays = of_int (now_ms clk - created) / (1000 * 60 * 60 * 24)
                  in max 0 (1 - ageInDays / 30)));
          typeRelevance =
            (if (contentType i = Some CImage \<and> type it = Image) \<or>
                (contentType i = Some CNote \<and> type it = Text) \<or>
                (contentType i = Some CLink \<and> type it = Link) \<or>
                (contentType i = Some CFile \<and> type it \<in> {Image, File})
             then 2 else 1)
      in \<lparr>scored = it,
          searchScore = semantic * (6 / 10) + recency * (3 / 10) + typeRelevance * (1 / 10),
          semanticScore = semantic, recencyScore = recency, typeScore = typeRelevance\<rparr>)"

text \<open>
  \<^verbatim>\<open>scoredItems.sort((a, b) => b._searchScore - a._searchScore).slice(0, 20)\<close>: the sort of
  the JavaScript engine is stable, as insertion sort on the negated score is.
\<close>

definition rank :: "scored_item list \<Rightarrow> scored_item list" where
  "rank scoredItems = take 20 (sort_key (\<lambda>r. - searchScore r) scoredItems)"

definition smartSearch :: "clock \<Rightarrow> string \<Rightarrow> vault \<Rightarrow> search_result \<times> vault" where
  "smartSearch clk query s =
     (let i = parseSearchIntent clk query
      in if items s = []
         then (\<lparr>results = [], intent = i, totalItems = 0, filteredCount = 0\<rparr>, s)
         else
           let s' = (if embeddings s = [] then s\<lparr>embeddings := backfill (items s)\<rparr> else s);
               effectiveEmbeddings = embeddings s';
               queryEmbedding =
                 generateEmbedding
                   (case topicKeywords i of None \<Rightarrow> query | Some k \<Rightarrow> k);
               filteredItems = filter (matches_intent i) (items s);
               scoredItems =
                 map (score_item clk i queryEmbedding effectiveEmbeddings) filteredItems
           in (\<lparr>results = rank scoredItems, intent = i,
                totalItems = length (items s), filteredCount = length filteredItems\<rparr>,
               s'))"

section \<open>The vault on SQLite (the second storage module, unnamed/part_003)\<close>

text \<open>
  The second implementation of the store keeps the items in one table, the embedding
  being a column of the item's row. Its \<^verbatim>\<open>createTextItem\<close> and \<^verbatim>\<open>createLinkItem\<close>
  are, word for word, those of \<^verbatim>\<open>storage.cjs\<close>; its other functions are modelled
  here under the suffix \<open>_db\<close>. The columns \<^verbatim>\<open>id\<close>, \<^verbatim>\<open>type\<close>, \<^verbatim>\<open>title\<close>,
  \<^verbatim>\<open>content\<close>, \<^verbatim>\<open>embedding\<close>, \<^verbatim>\<open>hash\<close> and \<^verbatim>\<open>metadata\<close> carry the prefix
  \<open>row_\<close>. A vector is a list of numbers; timestamps are milliseconds.
\<close>

record row =
  row_id :: string
  row_type :: item_type
  row_title :: string
  row_content :: "string option"
  raw_path :: "string option"
  thumbnail_path :: "string option"
  row_embedding :: "real list option"
  mime_type :: "string option"
  row_hash :: "string option"
  created_at :: int
  updated_at :: int
  row_metadata :: item_metadata

record db =
  db_files :: "string \<rightharpoonup> string"
  rows :: "row list"

text \<open>
  What \<^verbatim>\<open>extractFileMetadata\<close> returns (the keys that are read afterwards). The
  libraries it calls (image scaling, OCR, PDF parsing) and the model behind
  \<^verbatim>\<open>generateEmbedding\<close> are outside the repository: both functions are arguments,
  \<open>extractor\<close> and \<open>embedder\<close>, of \<^verbatim>\<open>saveItem\<close>. \<open>embedder\<close> returns \<open>None\<close>
  when the pipeline fails. The thumbnail files that the extraction writes beside the
  blobs are not part of the modelled file system.
\<close>

record extracted =
  x_size :: nat
  x_thumbnail :: "string option"
  x_extractedText :: string
  x_caption :: "string option"

definition generateEmbedding_db :: "(string \<Rightarrow> real list option) \<Rightarrow> string \<Rightarrow> real list option" where
  "generateEmbedding_db embedder text = (if trim text = [] then None else embedder (trim text))"


text \<open>\<^verbatim>\<open>buildSearchableText\<close>: the non-empty parts, joined by a space, trimmed.\<close>

fun join_space :: "string list \<Rightarrow> string" where
  "join_space [] = []"
| "join_space [p] = p"
| "join_space (p # ps) = p @ '' '' @ join_space ps"

definition buildSearchableText :: "item \<Rightarrow> extracted option \<Rightarrow> string" where
  "buildSearchableText it extractedMetadata =
     (let parts =
            [title it, or_empty (content it), or_empty (filename (metadata it)),
             (case extractedMetadata of None \<Rightarrow> [] | Some x \<Rightarrow> x_extractedText x),
             (case extractedMetadata of None \<Rightarrow> [] | Some x \<Rightarrow> or_empty (x_caption x)),
             or_empty (url (metadata it))]
      in trim (join_space (filter (\<lambda>p. p \<noteq> []) parts)))"

text \<open>
  \<^verbatim>\<open>INSERT ... ON CONFLICT(id) DO UPDATE SET ...\<close>: a row with the same id keeps its
  place, its type and its \<^verbatim>\<open>created_at\<close>, and takes the other columns of the new row.
  \<^verbatim>\<open>saveItem\<close> is modelled as returning the row it has built (the source returns an
  item object assembled from the same values) and the database after the statement.
\<close>

fun upsert :: "row \<Rightarrow> row list \<Rightarrow> row list" where
  "upsert r [] = [r]"
| "upsert r (x # xs) =
     (if row_id x = row_id r
      then r\<lparr>row_type := row_type x, created_at := created_at x\<rparr> # xs
      else x # upsert r xs)"

definition saveItem ::
  "(string \<Rightarrow> real list option) \<Rightarrow> (item \<Rightarrow> string \<Rightarrow> extracted) \<Rightarrow> string \<Rightarrow> int \<Rightarrow> item \<Rightarrow> db
     \<Rightarrow> row \<times> db" where
  "saveItem embedder extractor uuid now itemData d =
     (let created = (case createdAt (metadata itemData) of Some t \<Rightarrow> t | None \<Rightarrow> now);
          extractedMetadata =
            (case storagePath itemData of
               None \<Rightarrow> None
             | Some p \<Rightarrow>
                 if p \<noteq> [] \<and> db_files d p \<noteq> None then Some (extractor itemData p) else None);
          currentMeta = metadata itemData;
          meta =
            (case extractedMetadata of
               None \<Rightarrow> currentMeta
             | Some x \<Rightarrow>
                 currentMeta
                   \<lparr>size_bytes := Some (x_size x),
                    extractedText := Some (x_extractedText x),
                    filename :=
                      Some (if or_empty (filename currentMeta) = []
                            then basename (or_empty (storagePath itemData))
                            else or_empty (filename currentMeta)),
                    createdAt := Some created,
                    source := Some (or_overlay (source currentMeta))\<rparr>);
          searchableText = buildSearchableText itemData extractedMetadata;
          r = \<lparr>row_id = (if item_id itemData = [] then uuid else item_id itemData),
               row_type = type itemData,
               row_title = title itemData,
               row_content = (if or_empty (content itemData) = [] then None
                              else content itemData),
               raw_path = (if or_empty (storagePath itemData) = [] then None
                           else storagePath itemData),
               thumbnail_path =
                 (case extractedMetadata of
                    None \<Rightarrow> None
                  | Some x \<Rightarrow> if or_empty (x_thumbnail x) = [] then None else x_thumbnail x),
               row_embedding =
                 (if searchableText = [] then None
                  else generateEmbedding_db embedder searchableText),
               mime_type = (if or_empty (mimeType currentMeta) = [] then None
                            else mimeType currentMeta),
               row_hash = (if or_empty (hash itemData) = [] then None else hash itemData),
               created_at = created,
               updated_at = now,
               row_metadata = meta\<rparr>
      in (r, d\<lparr>rows := upsert r (rows d)\<rparr>))"

definition createFileItem_db ::
  "env \<Rightarrow> string \<Rightarrow> int \<Rightarrow> string \<Rightarrow> db \<Rightarrow> (error + item) \<times> db" where
  "createFileItem_db e uuid now filePath d =
     (if trim filePath = [] then (Inl PathRequired, d)
      else case db_files d filePath of
        None \<Rightarrow> (Inl (FileDoesNotExist filePath), d)
      | Some fileContent \<Rightarrow>
          if isRejectedFile filePath
          then (Inl (FileRejected (getRejectionReason filePath)), d)
          else
            let fileName = basename filePath;
                fileHash = sha256 e fileContent;
                category = detectCategoryFromFile filePath;
                fileType = (if category = ''images'' then Image else File);
                vaultFilePath = vaultFilePath_of e fileHash fileName;
                d1 = (if db_files d vaultFilePath = None
                      then d\<lparr>db_files := (db_files d)(vaultFilePath \<mapsto> fileContent)\<rparr>
                      else d)
            in (Inr \<lparr>item_id = uuid, type = fileType, title = fileName,
                     category = category, content = None, hash = Some fileHash,
                     storagePath = Some vaultFilePath,
                     searchableText = toLowerCase fileName,
                     metadata =
                       \<lparr>createdAt = Some now, source = Some ''overlay'',
                        filename = Some fileName,
                        size_bytes = Some (length fileContent),
                        mimeType = Some (getMimeType filePath), url = None,
                        pageTitle = None, extractedText = None\<rparr>,
                     path = None, timestamp = None\<rparr>,
                d1))"

definition addFileItem_db ::
  "env \<Rightarrow> (string \<Rightarrow> real list option) \<Rightarrow> (item \<Rightarrow> string \<Rightarrow> extracted) \<Rightarrow> string \<Rightarrow> int
     \<Rightarrow> string \<Rightarrow> db \<Rightarrow> (error + row) \<times> db" where
  "addFileItem_db e embedder extractor uuid now filePath d =
     (case createFileItem_db e uuid now filePath d of
        (Inl err, d') \<Rightarrow> (Inl err, d')
      | (Inr it, d') \<Rightarrow>
          (case saveItem embedder extractor uuid now it d' of (r, d'') \<Rightarrow> (Inr r, d'')))"

text \<open>\<^verbatim>\<open>DELETE FROM items WHERE id = ?\<close>.\<close>

definition deleteItem_db :: "string \<Rightarrow> db \<Rightarrow> db" where
  "deleteItem_db i d = d\<lparr>rows := filter (\<lambda>r. row_id r \<noteq> i) (rows d)\<rparr>"


section \<open>The overlay controller (main process, second part of electron/preload.cjs)\<close>

text \<open>
  The module-level variables of the main process that the chord handlers read and write.
  \<open>pressTimer\<close> tells whether a hold timer is pending (the handle itself is not needed);
  \<open>overlayWindow\<close> tells whether the window object exists. \<^verbatim>\<open>overlayState\<close> is a string
  in the source; \<open>Error\<close> is the value \<^verbatim>\<open>'error'\<close> that \<^verbatim>\<open>handleAltDChord\<close> compares
  \<^verbatim>\<open>stateBeforePressing\<close> with.
\<close>

datatype overlay_state = Hidden | Pressing | Latched | Saving | Error

record controller =
  overlayState :: overlay_state
  stateBeforePressing :: "overlay_state option"
  pressTimer :: bool
  pressStartTime :: "int option"
  altPhysicallyDown :: bool
  dPhysicallyDown :: bool
  isDraggingInOverlay :: bool
  overlayWindow :: bool
  overlayVisible :: bool

definition showOverlayWindow :: "controller \<Rightarrow> controller" where
  "showOverlayWindow c =
     (let c1 = (if \<not> overlayWindow c then c\<lparr>overlayWindow := True\<rparr> else c)
      in if overlayWindow c1 \<and> \<not> overlayVisible c1 then c1\<lparr>overlayVisible := True\<rparr> else c1)"

definition hideOverlayWindow :: "controller \<Rightarrow> controller" where
  "hideOverlayWindow c =
     (if \<not> isDraggingInOverlay c \<and> overlayWindow c \<and> overlayVisible c
      then c\<lparr>overlayVisible := False\<rparr> else c)"

text \<open>
  \<^verbatim>\<open>setOverlayState\<close>. A change of state clears the pending timer; entering
  \<^verbatim>\<open>pressing\<close> records the state it came from and starts the hold timer
  (\<^verbatim>\<open>PRESS_THRESHOLD_MS\<close> = 400).
\<close>

definition setOverlayState :: "overlay_state \<Rightarrow> controller \<Rightarrow> controller" where
  "setOverlayState newState c =
     (if overlayState c = newState then c
      else
        let previousState = overlayState c;
            c1 = c\<lparr>overlayState := newState, pressTimer := False\<rparr>
        in case newState of
             Hidden \<Rightarrow>
               (if \<not> isDraggingInOverlay c1 \<and> overlayWindow c1 \<and> overlayVisible c1
                then hideOverlayWindow c1 else c1)
                 \<lparr>stateBeforePressing := None\<rparr>
           | Pressing \<Rightarrow>
               (let c2 = (if overlayWindow c1 \<and> \<not> overlayVisible c1
                          then showOverlayWindow c1 else c1);
                    c3 = (if previousState \<noteq> Pressing \<and> previousState \<noteq> Saving
                          then c2\<lparr>stateBeforePressing := Some previousState\<rparr> else c2)
                in c3\<lparr>pressTimer := True\<rparr>)
           | Latched \<Rightarrow>
               (if overlayWindow c1 \<and> \<not> overlayVisible c1
                then showOverlayWindow c1 else c1)
                 \<lparr>stateBeforePressing := None\<rparr>
           | Saving \<Rightarrow>
               (if overlayWindow c1 \<and> \<not> overlayVisible c1
                then showOverlayWindow c1 else c1)
           | Error \<Rightarrow> c1)"

text \<open>The callback of the hold timer; it runs only while the timer is pending.\<close>

definition holdTimeout :: "controller \<Rightarrow> controller" where
  "holdTimeout c =
     (if pressTimer c then setOverlayState Latched (c\<lparr>pressTimer := False\<rparr>) else c)"

definition isAltKey :: "nat \<Rightarrow> bool" where
  "isAltKey keycode = (keycode = 56 \<or> keycode = 3640)"

definition isDKey :: "nat \<Rightarrow> bool" where
  "isDKey keycode = (keycode = 32)"

definition isChorded :: "controller \<Rightarrow> bool" where
  "isChorded c = (altPhysicallyDown c \<and> dPhysicallyDown c)"

definition handleAltDChord :: "controller \<Rightarrow> controller" where
  "handleAltDChord c =
     (if overlayState c = Saving then c
      else if isDraggingInOverlay c then setOverlayState Latched c
      else if overlayState c = Hidden \<and> stateBeforePressing c = Some Error
      then setOverlayState Pressing c
      else if overlayState c = Hidden then setOverlayState Pressing c
      else if overlayState c = Latched then setOverlayState Pressing c
      else c)"

definition handleAltDRelease :: "controller \<Rightarrow> controller" where
  "handleAltDRelease c =
     (if overlayState c = Saving then c
      else if overlayState c = Pressing
      then (if stateBeforePressing c = Some Hidden then setOverlayState Latched c
            else if stateBeforePressing c = Some Latched then setOverlayState Hidden c
            else setOverlayState Hidden c)
      else c)"

text \<open>
  The \<^verbatim>\<open>keydown\<close> and \<^verbatim>\<open>keyup\<close> listeners of the low-level hook; \<open>now\<close> is
  \<^verbatim>\<open>Date.now()\<close>.
\<close>

definition keydown :: "nat \<Rightarrow> int \<Rightarrow> controller \<Rightarrow> controller" where
  "keydown keycode now c =
     (if isAltKey keycode
      then
        (let c1 = (if \<not> altPhysicallyDown c
                   then c\<lparr>altPhysicallyDown := True,
                          pressStartTime :=
                            (if pressStartTime c = None \<and> \<not> dPhysicallyDown c
                             then Some now else pressStartTime c)\<rparr>
                   else c)
         in if altPhysicallyDown c1 \<and> dPhysicallyDown c1 then handleAltDChord c1 else c1)
      else if isDKey keycode
      then
        (let c1 = (if \<not> dPhysicallyDown c
                   then c\<lparr>dPhysicallyDown := True,
                          pressStartTime :=
                            (if pressStartTime c = None \<and> \<not> altPhysicallyDown c
                             then Some now else pressStartTime c)\<rparr>
                   else c)
         in if altPhysicallyDown c1 \<and> dPhysicallyDown c1 then handleAltDChord c1 else c1)
      else c)"

definition keyup :: "nat \<Rightarrow> controller \<Rightarrow> controller" where
  "keyup keycode c =
     (let wasChordActive = isChorded c
      in if isAltKey keycode
         then
           (let c1 = c\<lparr>altPhysicallyDown := False\<rparr>;
                c2 = (if wasChordActive then c1\<lparr>pressStartTime := None\<rparr> else c1)
            in if wasChordActive then handleAltDRelease c2 else c2)
         else if isDKey keycode
         then
           (let c1 = c\<lparr>dPhysicallyDown := False\<rparr>;
                c2 = (if wasChordActive then c1\<lparr>pressStartTime := None\<rparr> else c1)
            in if wasChordActive then handleAltDRelease c2 else c2)
         else c)"

text \<open>
  The chord events: a key goes down (at a time), a key goes up, the hold timer fires.
  A run handles them one after the other, as the event loop does.
\<close>

datatype event = KeyDown nat int | KeyUp nat | HoldTimeout

fun step :: "controller \<Rightarrow> event \<Rightarrow> controller" where
  "step c (KeyDown keycode now) = keydown keycode now c"
| "step c (KeyUp keycode) = keyup keycode c"
| "step c HoldTimeout = holdTimeout c"

definition run :: "controller \<Rightarrow> event list \<Rightarrow> controller" where
  "run c evs = foldl step c evs"

text \<open>
  The controller when the application has started: the overlay window exists and is not
  shown, no key is down, nothing is dragged.
\<close>

definition startup :: controller where
  "startup =
     \<lparr>overlayState = Hidden, stateBeforePressing = None, pressTimer = False,
      pressStartTime = None, altPhysicallyDown = False, dPhysicallyDown = False,
      isDraggingInOverlay = False, overlayWindow = True, overlayVisible = False\<rparr>"

section \<open>Example vaults\<close>

text \<open>
  Concrete inputs for the examples below: an environment whose digest function returns
  the SHA-256 of the bytes \<^verbatim>\<open>abc\<close> (the only content the examples hash), a file system
  with one user file of that content, the stores before the first ingest, a metadata
  extraction that finds nothing, and a clock (14 November 2023, 22:13:20 UTC).
\<close>

definition example_env :: env where
  "example_env =
     \<lparr>VAULT_DIR = ''/userData/vault'',
      sha256 = (\<lambda>bytes. ''ba7816bf8f01cfea414140de5dae2223b00361a396177a9cb410ff61f20015ad'')\<rparr>"

definition example_vault :: "string \<Rightarrow> vault" where
  "example_vault filePath =
     \<lparr>files = [filePath \<mapsto> ''abc''], items = [], embeddings = [], scheduled = []\<rparr>"


definition example_extractor :: "item \<Rightarrow> string \<Rightarrow> extracted" where
  "example_extractor it p =
     \<lparr>x_size = 0, x_thumbnail = None, x_extractedText = [], x_caption = None\<rparr>"

definition example_clock :: clock where
  "example_clock =
     \<lparr>now_ms = 1700000000000,
      todayRange = (1699920000000, 1700000000000),
      yesterdayRange = (1699833600000, 1699919999999),
      lastWeekRange = (1699315200000, 1700000000000),
      lastMonthRange = (1697241600000, 1700000000000)\<rparr>"

section \<open>Predicates of the proofs\<close>


text \<open>
  \<open>short_runs n s\<close>: no run of characters other than white space in \<open>s\<close> is longer
  than two, the first run counted as already \<open>n\<close> characters long. \<open>long_start p\<close>:
  the string \<open>p\<close> starts with three characters other than white space.
\<close>

fun short_runs :: "nat \<Rightarrow> string \<Rightarrow> bool" where
  "short_runs n [] = True"
| "short_runs n (c # cs) =
     (if is_space c then short_runs 0 cs else n < 2 \<and> short_runs (Suc n) cs)"

definition long_start :: "string \<Rightarrow> bool" where
  "long_start p =
     (case p of
        a # b # c # _ \<Rightarrow> \<not> is_space a \<and> \<not> is_space b \<and> \<not> is_space c
      | _ \<Rightarrow> False)"

section \<open>Unfolding the definitions on concrete inputs\<close>

text \<open>
  The definitions that the simplifier unfolds to run an ingest, a search or the overlay
  controller on the example inputs.
\<close>

lemmas example_ingest_defs =
  addFileItem_def createFileItem_def addItem_def updateItemEmbedding_def
  scheduleMetadataExtraction_def scheduleLLMEnrichment_def example_env_def
  example_vault_def isRejectedFile_def detectCategoryFromFile_def vaultFilePath_of_def
  path_join_def extname_def basename_def trim_def is_space_def toLowerCase_def
  toLowerCase_char_def REJECTED_TYPES_def audio_types_def executable_types_def
  archive_types_def system_types_def FILE_TYPE_MAP_def getMimeType_def mimeTypes_def Let_def


lemmas controller_defs =
  keydown_def keyup_def holdTimeout_def handleAltDChord_def handleAltDRelease_def
  setOverlayState_def showOverlayWindow_def hideOverlayWindow_def isChorded_def Let_def

section \<open>Ingesting files\<close>

lemma allow_list_not_rejected: "set (map fst FILE_TYPE_MAP) \<inter> set REJECTED_TYPES = {}"
  by (simp add: FILE_TYPE_MAP_def REJECTED_TYPES_def audio_types_def executable_types_def
      archive_types_def system_types_def)

lemma rejection_reason:
  "isRejectedFile p \<Longrightarrow>
     getRejectionReason p \<in>
       {''Audio files not supported'', ''Executable files not allowed'',
        ''Archive files not supported'', ''System files not supported''}"
  unfolding isRejectedFile_def getRejectionReason_def Let_def REJECTED_TYPES_def
  by (auto simp: audio_types_def executable_types_def archive_types_def system_types_def)

lemma createFileItem_rejected:
  "files s p = Some bytes \<Longrightarrow> trim p \<noteq> [] \<Longrightarrow> isRejectedFile p \<Longrightarrow>
     createFileItem e u n p s = (Inl (FileRejected (getRejectionReason p)), s)"
  by (simp add: createFileItem_def)

lemma createFileItem_accepted:
  "files s p = Some bytes \<Longrightarrow> trim p \<noteq> [] \<Longrightarrow> \<not> isRejectedFile p \<Longrightarrow>
     \<exists>it s'. createFileItem e u n p s = (Inr it, s') \<and> item_id it = u \<and>
        category it = detectCategoryFromFile p \<and> hash it = Some (sha256 e bytes) \<and>
        storagePath it = Some (vaultFilePath_of e (sha256 e bytes) (basename p)) \<and>
        items s' = items s \<and>
        files s' = (if files s (vaultFilePath_of e (sha256 e bytes) (basename p)) = None
                    then (files s)(vaultFilePath_of e (sha256 e bytes) (basename p) \<mapsto> bytes)
                    else files s) \<and>
        map_of (embeddings s') u \<noteq> None"
  by (simp add: createFileItem_def Let_def updateItemEmbedding_def
      scheduleMetadataExtraction_def update_conv)

lemma addItem_state:
  "addItem it s = (it', s') \<Longrightarrow>
     it' = it \<and> items s' = items s @ [it] \<and> files s' = files s \<and>
     map_of (embeddings s') (item_id it) \<noteq> None \<and>
     scheduled s' = scheduled s @ [LLMEnrichment it]"
  by (auto simp: addItem_def updateItemEmbedding_def scheduleLLMEnrichment_def update_conv)

lemma addFileItem_accepted:
  assumes "files s p = Some bytes" "trim p \<noteq> []" "\<not> isRejectedFile p"
  shows "\<exists>it s'. addFileItem e u n p s = (Inr it, s') \<and> item_id it = u \<and>
        category it = detectCategoryFromFile p \<and> hash it = Some (sha256 e bytes) \<and>
        storagePath it = Some (vaultFilePath_of e (sha256 e bytes) (basename p)) \<and>
        items s' = items s @ [it] \<and>
        files s' = (if files s (vaultFilePath_of e (sha256 e bytes) (basename p)) = None
                    then (files s)(vaultFilePath_of e (sha256 e bytes) (basename p) \<mapsto> bytes)
                    else files s) \<and>
        map_of (embeddings s') u \<noteq> None"
proof -
  obtain it s1 where c: "createFileItem e u n p s = (Inr it, s1)" and u: "item_id it = u"
    and props: "category it = detectCategoryFromFile p" "hash it = Some (sha256 e bytes)"
      "storagePath it = Some (vaultFilePath_of e (sha256 e bytes) (basename p))"
      "items s1 = items s"
      "files s1 = (if files s (vaultFilePath_of e (sha256 e bytes) (basename p)) = None
                    then (files s)(vaultFilePath_of e (sha256 e bytes) (basename p) \<mapsto> bytes)
                    else files s)"
    using createFileItem_accepted [OF assms, of e u n] by blast
  obtain it' s2 where a: "addItem it s1 = (it', s2)"
    by (cases "addItem it s1")
  from addItem_state [OF a] have st: "it' = it" "items s2 = items s1 @ [it]"
    "files s2 = files s1" "map_of (embeddings s2) (item_id it) \<noteq> None"
    by simp_all
  have "addFileItem e u n p s = (Inr it, s2)"
    using c a st(1) by (simp add: addFileItem_def)
  then show ?thesis
    using u props st by simp
qed

text \<open>
  C4, as stated, fails on the code: an extension that is on neither list is not rejected.
  \<^verbatim>\<open>.xyz\<close> is not on the allow list and not on the reject list; the file is ingested
  with category \<^verbatim>\<open>documents\<close>, and the item index and the vault directory change.
\<close>

theorem addFileItem_accepts_unlisted_extension:
  "map_of FILE_TYPE_MAP ''.xyz'' = None \<and>
   \<not> isl (fst (addFileItem example_env ''id1'' 5 ''/home/notes.xyz''
                 (example_vault ''/home/notes.xyz''))) \<and>
   map category
     (items (snd (addFileItem example_env ''id1'' 5 ''/home/notes.xyz''
                    (example_vault ''/home/notes.xyz'')))) = [''documents''] \<and>
   files (snd (addFileItem example_env ''id1'' 5 ''/home/notes.xyz''
                 (example_vault ''/home/notes.xyz'')))
     ''/userData/vault/ba7816bf8f01cfea414140de5dae2223b00361a396177a9cb410ff61f20015ad.xyz''
     = Some ''abc''"
  by (simp add: example_ingest_defs)

text \<open>
  C4, amended. For an existing file whose lower-cased extension is on the reject list,
  \<^verbatim>\<open>createFileItem\<close> (and with it \<^verbatim>\<open>addFileItem\<close>) throws \<^verbatim>\<open>File rejected: <reason>\<close>,
  the reason being one of four readable sentences, and leaves the file system, the item
  index, the embeddings and the task queue as they were. For an existing file whose
  extension is not on the reject list it returns an item, whose category is that of the
  allow list, or \<^verbatim>\<open>documents\<close> for an extension the allow list does not have; no
  extension of the allow list is on the reject list.
\<close>

theorem createFileItem_rejects_the_reject_list:
  assumes "files s p = Some bytes" and "trim p \<noteq> []"
  shows "(isRejectedFile p \<longrightarrow>
            createFileItem e u n p s = (Inl (FileRejected (getRejectionReason p)), s) \<and>
            addFileItem e u n p s = (Inl (FileRejected (getRejectionReason p)), s) \<and>
            getRejectionReason p \<in>
              {''Audio files not supported'', ''Executable files not allowed'',
               ''Archive files not supported'', ''System files not supported''}) \<and>
         (\<not> isRejectedFile p \<longrightarrow>
            (\<exists>it s'. addFileItem e u n p s = (Inr it, s') \<and>
               category it =
                 (case map_of FILE_TYPE_MAP (toLowerCase (extname p)) of
                    Some c \<Rightarrow> c | None \<Rightarrow> ''documents''))) \<and>
         (toLowerCase (extname p) \<in> fst ` set FILE_TYPE_MAP \<longrightarrow> \<not> isRejectedFile p)"
proof (intro conjI impI)
  assume r: "isRejectedFile p"
  show c: "createFileItem e u n p s = (Inl (FileRejected (getRejectionReason p)), s)"
    using assms r by (rule createFileItem_rejected)
  show "addFileItem e u n p s = (Inl (FileRejected (getRejectionReason p)), s)"
    by (simp add: addFileItem_def c)
  show "getRejectionReason p \<in>
          {''Audio files not supported'', ''Executable files not allowed'',
           ''Archive files not supported'', ''System files not supported''}"
    using r by (rule rejection_reason)
next
  assume "\<not> isRejectedFile p"
  from addFileItem_accepted [OF assms this, of e u n]
  show "\<exists>it s'. addFileItem e u n p s = (Inr it, s') \<and>
          category it =
            (case map_of FILE_TYPE_MAP (toLowerCase (extname p)) of
               Some c \<Rightarrow> c | None \<Rightarrow> ''documents'')"
    by (auto simp: detectCategoryFromFile_def)
next
  assume "toLowerCase (extname p) \<in> fst ` set FILE_TYPE_MAP"
  then show "\<not> isRejectedFile p"
    using allow_list_not_rejected by (auto simp: isRejectedFile_def)
qed

theorem createFileItem_rejects_the_reject_list_witness:
  "isRejectedFile ''/home/song.MP3'' \<and>
   addFileItem example_env ''id1'' 5 ''/home/song.MP3'' (example_vault ''/home/song.MP3'') =
     (Inl (FileRejected ''Audio files not supported''), example_vault ''/home/song.MP3'')"
proof -
  have f: "files (example_vault ''/home/song.MP3'') ''/home/song.MP3'' = Some ''abc''"
    by (simp add: example_vault_def)
  have t: "trim ''/home/song.MP3'' \<noteq> []"
    by (simp add: trim_def is_space_def)
  have r: "isRejectedFile ''/home/song.MP3''"
    by (simp add: example_ingest_defs)
  have g: "getRejectionReason ''/home/song.MP3'' = ''Audio files not supported''"
    by (simp add: getRejectionReason_def example_ingest_defs)
  show ?thesis
    using createFileItem_rejects_the_reject_list [OF f t, of example_env "''id1''" 5] r g
    by simp
qed




lemma upsert_has_row:
  "\<exists>r' \<in> set (upsert r xs). row_id r' = row_id r \<and> row_embedding r' = row_embedding r"
  by (induction xs) auto

lemma addItem_embedding_record:
  "addItem it s = (it', s') \<Longrightarrow>
     \<exists>entry. map_of (embeddings s') (item_id it) = Some entry \<and>
             vector entry = computeItemEmbedding it"
  by (auto simp: addItem_def updateItemEmbedding_def scheduleLLMEnrichment_def update_conv)

text \<open>
  C5, as stated, fails on the code, in the SQLite store: \<^verbatim>\<open>saveItem\<close> stores the row
  with a null embedding when the searchable text is empty (a link whose URL is blank and
  that has no title) and when the embedding function returns nothing (here for the text
  \<^verbatim>\<open>hello world\<close>).
\<close>

theorem saveItem_without_embedding:
  "map row_id
     (rows (snd (saveItem (\<lambda>text. Some [1]) example_extractor
                   ''u'' 7
                   (createLinkItem ''id1'' 5 ''  '' None)
                   \<lparr>db_files = Map.empty, rows = []\<rparr>))) = [''id1''] \<and>
   map row_embedding
     (rows (snd (saveItem (\<lambda>text. Some [1]) example_extractor
                   ''u'' 7
                   (createLinkItem ''id1'' 5 ''  '' None)
                   \<lparr>db_files = Map.empty, rows = []\<rparr>))) = [None] \<and>
   map row_id
     (rows (snd (saveItem (\<lambda>text. None) example_extractor
                   ''u'' 7
                   (createTextItem ''id2'' 5 ''hello world'')
                   \<lparr>db_files = Map.empty, rows = []\<rparr>))) = [''id2''] \<and>
   map row_embedding
     (rows (snd (saveItem (\<lambda>text. None) example_extractor
                   ''u'' 7
                   (createTextItem ''id2'' 5 ''hello world'')
                   \<lparr>db_files = Map.empty, rows = []\<rparr>))) = [None]"
  by (simp add: saveItem_def createLinkItem_def createTextItem_def buildSearchableText_def
      generateEmbedding_db_def trim_def is_space_def example_extractor_def Let_def)

text \<open>
  C5, amended. When \<^verbatim>\<open>addItem\<close> of the JSON store returns (and so when
  \<^verbatim>\<open>addTextItem\<close> or a successful \<^verbatim>\<open>addFileItem\<close> returns), the item is the last
  element of the item index and the embeddings hold a record under its id whose vector
  is the embedding of the item as ingested, while the enrichment is only queued. When
  \<^verbatim>\<open>saveItem\<close> of the SQLite store returns, a row with the item's id is in the table;
  its embedding is what the embedding function returned for the searchable text, and
  null when that text is empty or the function returned nothing.
\<close>

theorem ingest_writes_item_and_embedding:
  "(addItem it s = (it', s') \<longrightarrow>
      it' = it \<and> items s' = items s @ [it] \<and>
      (\<exists>entry. map_of (embeddings s') (item_id it) = Some entry \<and>
                vector entry = computeItemEmbedding it) \<and>
      scheduled s' = scheduled s @ [LLMEnrichment it]) \<and>
   (addTextItem u n text s = (it', s') \<longrightarrow>
      it' = createTextItem u n text \<and> items s' = items s @ [it'] \<and>
      map_of (embeddings s') u \<noteq> None) \<and>
   (addFileItem e u n p s = (Inr it', s') \<longrightarrow>
      item_id it' = u \<and> it' \<in> set (items s') \<and> map_of (embeddings s') u \<noteq> None) \<and>
   (saveItem embedder extractor u n it d = (r, d') \<longrightarrow>
      (\<exists>r' \<in> set (rows d'). row_id r' = row_id r \<and> row_embedding r' = row_embedding r) \<and>
      row_id r = (if item_id it = [] then u else item_id it) \<and>
      row_embedding r =
        (if buildSearchableText it
              (case storagePath it of
                 None \<Rightarrow> None
               | Some sp \<Rightarrow> if sp \<noteq> [] \<and> db_files d sp \<noteq> None
                            then Some (extractor it sp) else None) = []
         then None
         else generateEmbedding_db embedder
                (buildSearchableText it
                   (case storagePath it of
                      None \<Rightarrow> None
                    | Some sp \<Rightarrow> if sp \<noteq> [] \<and> db_files d sp \<noteq> None
                                 then Some (extractor it sp) else None))))"
proof (intro conjI impI)
  assume a: "addItem it s = (it', s')"
  from addItem_state [OF a]
  show "it' = it" "items s' = items s @ [it]" "scheduled s' = scheduled s @ [LLMEnrichment it]"
    by simp_all
  show "\<exists>entry. map_of (embeddings s') (item_id it) = Some entry \<and>
                vector entry = computeItemEmbedding it"
    using a by (rule addItem_embedding_record)
next
  assume a: "addTextItem u n text s = (it', s')"
  then have b: "addItem (createTextItem u n text) s = (it', s')"
    by (simp add: addTextItem_def)
  from addItem_state [OF b]
  show "it' = createTextItem u n text" "items s' = items s @ [it']"
    "map_of (embeddings s') u \<noteq> None"
    by (simp_all add: createTextItem_def)
next
  assume a: "addFileItem e u n p s = (Inr it', s')"
  then obtain it0 s0 where c: "createFileItem e u n p s = (Inr it0, s0)"
    and b: "addItem it0 s0 = (it', s')"
    by (auto simp: addFileItem_def split: prod.splits sum.splits)
  have u: "item_id it0 = u"
    using c by (auto simp: createFileItem_def Let_def split: if_splits option.splits)
  from addItem_state [OF b] u
  show "item_id it' = u" "it' \<in> set (items s')" "map_of (embeddings s') u \<noteq> None"
    by simp_all
next
  assume a: "saveItem embedder extractor u n it d = (r, d')"
  then have d': "rows d' = upsert r (rows d)"
    by (auto simp: saveItem_def Let_def)
  show "\<exists>r' \<in> set (rows d'). row_id r' = row_id r \<and> row_embedding r' = row_embedding r"
    unfolding d' by (rule upsert_has_row)
  show "row_id r = (if item_id it = [] then u else item_id it)"
    using a by (auto simp: saveItem_def Let_def)
  show "row_embedding r =
        (if buildSearchableText it
              (case storagePath it of
                 None \<Rightarrow> None
               | Some sp \<Rightarrow> if sp \<noteq> [] \<and> db_files d sp \<noteq> None
                            then Some (extractor it sp) else None) = []
         then None
         else generateEmbedding_db embedder
                (buildSearchableText it
                   (case storagePath it of
                      None \<Rightarrow> None
                    | Some sp \<Rightarrow> if sp \<noteq> [] \<and> db_files d sp \<noteq> None
                                 then Some (extractor it sp) else None)))"
    using a by (auto simp: saveItem_def Let_def)
qed

theorem ingest_writes_item_and_embedding_witness:
  "map item_id
     (items (snd (addTextItem ''id1'' 5 ''Remember to review PR #123''
                    (example_vault ''/home/a.pdf'')))) = [''id1''] \<and>
   map_of
     (embeddings (snd (addTextItem ''id1'' 5 ''Remember to review PR #123''
                         (example_vault ''/home/a.pdf'')))) ''id1'' \<noteq> None"
proof -
  obtain it' s' where a:
    "addTextItem ''id1'' 5 ''Remember to review PR #123'' (example_vault ''/home/a.pdf'')
       = (it', s')"
    by (cases "addTextItem ''id1'' 5 ''Remember to review PR #123''
                 (example_vault ''/home/a.pdf'')")
  from ingest_writes_item_and_embedding
    [of it' "example_vault ''/home/a.pdf''" it' s' "''id1''" 5
        "''Remember to review PR #123''"]
    a
  have "it' = createTextItem ''id1'' 5 ''Remember to review PR #123''"
    "items s' = items (example_vault ''/home/a.pdf'') @ [it']"
    "map_of (embeddings s') ''id1'' \<noteq> None"
    by blast+
  then show ?thesis
    using a by (simp add: example_vault_def createTextItem_def)
qed

section \<open>Deleting items\<close>

lemma filter_other_ids:
  "i \<notin> item_id ` set xs \<Longrightarrow> filter (\<lambda>it. item_id it \<noteq> i) xs = xs"
  by (induction xs) auto

lemma filter_other_rows:
  "i \<notin> row_id ` set xs \<Longrightarrow> filter (\<lambda>r. row_id r \<noteq> i) xs = xs"
  by (induction xs) auto

lemma find_absent_id:
  "i \<notin> item_id ` set xs \<Longrightarrow> find (\<lambda>it. item_id it = i) xs = None"
  by (induction xs) auto

text \<open>
  C9. Deleting an id that no item carries raises nothing and changes nothing: in the JSON
  store the item index (and the rest of the vault) is as before, and in the SQLite store
  the table is as before.
\<close>

theorem deleteItem_absent_id:
  "(i \<notin> item_id ` set (items s) \<longrightarrow> deleteItem i s = s) \<and>
   (i \<notin> row_id ` set (rows d) \<longrightarrow> deleteItem_db i d = d)"
  by (simp add: deleteItem_def deleteItem_db_def filter_other_ids filter_other_rows
      find_absent_id)

theorem deleteItem_absent_id_witness:
  "deleteItem ''b''
     \<lparr>files = Map.empty, items = [createTextItem ''a'' 5 ''hello world''],
      embeddings = [], scheduled = []\<rparr> =
     \<lparr>files = Map.empty, items = [createTextItem ''a'' 5 ''hello world''],
      embeddings = [], scheduled = []\<rparr> \<and>
   deleteItem_db ''b'' \<lparr>db_files = Map.empty, rows = []\<rparr> =
     \<lparr>db_files = Map.empty, rows = []\<rparr>"
  using deleteItem_absent_id
    [of "''b''"
        "\<lparr>files = Map.empty, items = [createTextItem ''a'' 5 ''hello world''],
          embeddings = [], scheduled = []\<rparr>"
        "\<lparr>db_files = Map.empty, rows = []\<rparr>"]
  by (simp add: createTextItem_def)

lemma items_deleteItem:
  "items (deleteItem i s) = filter (\<lambda>it. item_id it \<noteq> i) (items s)"
  by (simp add: deleteItem_def Let_def)

lemma embeddings_deleteItem: "embeddings (deleteItem i s) = embeddings s"
  by (simp add: deleteItem_def Let_def)

text \<open>
  C1, as stated, fails on the code. A PDF is ingested into an empty vault (one item, so no
  other item shares its hash) and then deleted: the item is gone from the item index, but
  its record is still in the embeddings file and its blob is still in the vault
  directory.
\<close>

theorem deleteItem_leaves_embedding_and_blob:
  "map item_id
     (items (snd (addFileItem example_env ''id1'' 5 ''/home/a.pdf''
                    (example_vault ''/home/a.pdf'')))) = [''id1''] \<and>
   items (deleteItem ''id1''
            (snd (addFileItem example_env ''id1'' 5 ''/home/a.pdf''
                    (example_vault ''/home/a.pdf'')))) = [] \<and>
   map fst
     (embeddings (deleteItem ''id1''
        (snd (addFileItem example_env ''id1'' 5 ''/home/a.pdf''
                (example_vault ''/home/a.pdf''))))) = [''id1''] \<and>
   files (deleteItem ''id1''
            (snd (addFileItem example_env ''id1'' 5 ''/home/a.pdf''
                    (example_vault ''/home/a.pdf''))))
     ''/userData/vault/ba7816bf8f01cfea414140de5dae2223b00361a396177a9cb410ff61f20015ad.pdf''
     = Some ''abc''"
  by (simp add: example_ingest_defs deleteItem_def)

text \<open>
  C1, amended. After \<^verbatim>\<open>deleteItem(id)\<close> no item with that id is left in the item index
  and the other items are kept, in order. The JSON store's embeddings file is not
  touched, so a record keyed by the id stays there; in the SQLite store the embedding is
  a column of the deleted row and goes with it, and no file is removed.
\<close>

theorem deleteItem_removes_the_item_only:
  "i \<notin> item_id ` set (items (deleteItem i s)) \<and>
   items (deleteItem i s) = filter (\<lambda>it. item_id it \<noteq> i) (items s) \<and>
   embeddings (deleteItem i s) = embeddings s \<and>
   i \<notin> row_id ` set (rows (deleteItem_db i d)) \<and>
   rows (deleteItem_db i d) = filter (\<lambda>r. row_id r \<noteq> i) (rows d) \<and>
   db_files (deleteItem_db i d) = db_files d"
  by (auto simp: items_deleteItem embeddings_deleteItem deleteItem_db_def)

theorem deleteItem_removes_the_item_only_witness:
  "items (deleteItem ''a''
            \<lparr>files = Map.empty,
             items = [createTextItem ''a'' 5 ''hello'', createTextItem ''b'' 6 ''world''],
             embeddings = [], scheduled = []\<rparr>) =
     [createTextItem ''b'' 6 ''world''] \<and>
   rows (deleteItem_db ''a'' \<lparr>db_files = Map.empty, rows = []\<rparr>) = []"
  using deleteItem_removes_the_item_only
    [of "''a''"
        "\<lparr>files = Map.empty,
          items = [createTextItem ''a'' 5 ''hello'', createTextItem ''b'' 6 ''world''],
          embeddings = [], scheduled = []\<rparr>"
        "\<lparr>db_files = Map.empty, rows = []\<rparr>"]
  by (simp add: createTextItem_def)

section \<open>Search\<close>

lemma keys_backfill_aux:
  "fst ` set (foldl (\<lambda>backfilled it.
                AList.update (item_id it)
                  \<lparr>vector = computeItemEmbedding it,
                   e_createdAt = created_of it,
                   e_source = or_overlay (source (metadata it)),
                   e_type = type it,
                   e_category = category it,
                   e_storagePath = storagePath it\<rparr>
                  backfilled) acc its) =
   fst ` set acc \<union> item_id ` set its"
  by (induction its arbitrary: acc) (auto simp: dom_update)

lemma keys_backfill: "fst ` set (backfill its) = item_id ` set its"
  by (simp add: backfill_def keys_backfill_aux)

lemma state_smartSearch:
  "snd (smartSearch clk q s) =
     (if items s \<noteq> [] \<and> embeddings s = [] then s\<lparr>embeddings := backfill (items s)\<rparr> else s)"
  by (simp add: smartSearch_def Let_def)

text \<open>
  C3, as stated, fails on the code. A vault has one item and no embedding (a vault
  written before embeddings existed, or whose embeddings file was lost); a search writes
  an embedding record for the item.
\<close>

theorem smartSearch_backfills_on_query:
  "embeddings
     \<lparr>files = Map.empty, items = [createTextItem ''id1'' 5 ''Remember to review PR #123''],
      embeddings = [], scheduled = []\<rparr> = [] \<and>
   map fst
     (embeddings (snd (smartSearch example_clock ''review pr''
        \<lparr>files = Map.empty, items = [createTextItem ''id1'' 5 ''Remember to review PR #123''],
         embeddings = [], scheduled = []\<rparr>))) = [''id1'']"
  by (simp add: state_smartSearch backfill_def createTextItem_def)

text \<open>
  C3, amended. A search leaves the embedding store unchanged whenever the item index is
  empty or the embedding store holds at least one record. When there are items and the
  embedding store is empty, the search itself computes a record for every item and
  writes them to the embedding store. The item index and the file system are never
  changed by a search.
\<close>

theorem smartSearch_changes_embeddings_only_to_backfill:
  "(items s = [] \<or> embeddings s \<noteq> [] \<longrightarrow> snd (smartSearch clk q s) = s) \<and>
   (items s \<noteq> [] \<and> embeddings s = [] \<longrightarrow>
      snd (smartSearch clk q s) = s\<lparr>embeddings := backfill (items s)\<rparr> \<and>
      fst ` set (backfill (items s)) = item_id ` set (items s)) \<and>
   items (snd (smartSearch clk q s)) = items s \<and>
   files (snd (smartSearch clk q s)) = files s"
  by (auto simp: state_smartSearch keys_backfill)

theorem smartSearch_changes_embeddings_only_to_backfill_witness:
  "embeddings (snd (addTextItem ''a'' 5 ''alpha'' (example_vault ''/home/a.pdf''))) \<noteq> [] \<and>
   snd (smartSearch example_clock ''alpha''
          (snd (addTextItem ''a'' 5 ''alpha'' (example_vault ''/home/a.pdf'')))) =
     snd (addTextItem ''a'' 5 ''alpha'' (example_vault ''/home/a.pdf''))"
proof -
  have e: "embeddings (snd (addTextItem ''a'' 5 ''alpha'' (example_vault ''/home/a.pdf''))) \<noteq> []"
    by (simp add: addTextItem_def addItem_def updateItemEmbedding_def
        scheduleLLMEnrichment_def example_vault_def)
  show ?thesis
    using e smartSearch_changes_embeddings_only_to_backfill
      [of "snd (addTextItem ''a'' 5 ''alpha'' (example_vault ''/home/a.pdf''))"
          example_clock "''alpha''"]
    by simp
qed




lemma semanticScore_score_item:
  "semanticScore (score_item clk i qe embs it) =
     semanticSimilarity qe
       (case map_of embs (item_id it) of None \<Rightarrow> [] | Some entry \<Rightarrow> vector entry)"
  by (simp add: score_item_def Let_def)

lemma results_smartSearch:
  "results (fst (smartSearch clk q s)) =
     rank (map (score_item clk (parseSearchIntent clk q)
                  (generateEmbedding
                     (case topicKeywords (parseSearchIntent clk q) of
                        None \<Rightarrow> q | Some k \<Rightarrow> k))
                  (embeddings (snd (smartSearch clk q s))))
             (filter (matches_intent (parseSearchIntent clk q)) (items s)))"
  by (simp add: smartSearch_def Let_def rank_def)




section \<open>The overlay state machine\<close>
















text \<open>
  C8, as stated, fails on the code: there is no debounce. Alt and D go down (the overlay is
  pressed from \<^verbatim>\<open>hidden\<close>), D bounces (up, and down again 19 ms after the first press)
  and is released. Had the first key-up been annulled by the key-down that follows it,
  the run would be a single press and release, which ends \<^verbatim>\<open>latched\<close>; but the first
  key-up has latched the overlay at once, the key-down is a new press from \<^verbatim>\<open>latched\<close>,
  and the run ends \<^verbatim>\<open>hidden\<close>. Nor is a key-down for a key that is already down
  without effect: after the hold timer has latched the overlay, a repeated key-down of D
  moves the machine back to \<^verbatim>\<open>pressing\<close>.
\<close>

theorem keyup_acts_without_debounce:
  "overlayState (run startup [KeyDown 56 0, KeyDown 32 1, KeyUp 32]) = Latched \<and>
   overlayState (run startup [KeyDown 56 0, KeyDown 32 1, KeyUp 32, KeyDown 32 20]) = Pressing \<and>
   stateBeforePressing (run startup [KeyDown 56 0, KeyDown 32 1, KeyUp 32, KeyDown 32 20])
     = Some Latched \<and>
   overlayState (run startup [KeyDown 56 0, KeyDown 32 1, KeyUp 32, KeyDown 32 20, KeyUp 32])
     = Hidden \<and>
   dPhysicallyDown (run startup [KeyDown 56 0, KeyDown 32 1, HoldTimeout]) \<and>
   overlayState (run startup [KeyDown 56 0, KeyDown 32 1, HoldTimeout]) = Latched \<and>
   overlayState (run startup [KeyDown 56 0, KeyDown 32 1, HoldTimeout, KeyDown 32 500])
     = Pressing"
  by (simp add: run_def startup_def controller_defs isAltKey_def isDKey_def)

text \<open>
  C8, amended. A key-up of a chord key takes effect in the handler call itself, with no
  debounce window: the key is recorded as up, and when the chord was active in
  \<^verbatim>\<open>pressing\<close> the release transition is taken at once (to \<^verbatim>\<open>latched\<close> or
  \<^verbatim>\<open>hidden\<close>) and the hold timer is cleared, so that a key-down that follows is a new
  press. A key-down for a key already recorded as down changes neither the recorded key
  states nor the press start time.
\<close>

theorem keyup_immediate_and_keydown_repeat:
  "((isAltKey k \<or> isDKey k) \<and> isChorded c \<and> overlayState c = Pressing \<longrightarrow>
      overlayState (keyup k c) =
        (if stateBeforePressing c = Some Hidden then Latched else Hidden) \<and>
      \<not> pressTimer (keyup k c) \<and> \<not> isChorded (keyup k c)) \<and>
   altPhysicallyDown (keyup k c) = (altPhysicallyDown c \<and> \<not> isAltKey k) \<and>
   dPhysicallyDown (keyup k c) = (dPhysicallyDown c \<and> \<not> isDKey k) \<and>
   ((isAltKey k \<and> altPhysicallyDown c) \<or> (isDKey k \<and> dPhysicallyDown c) \<longrightarrow>
      altPhysicallyDown (keydown k t c) = altPhysicallyDown c \<and>
      dPhysicallyDown (keydown k t c) = dPhysicallyDown c \<and>
      pressStartTime (keydown k t c) = pressStartTime c)"
  by (auto simp: controller_defs isAltKey_def isDKey_def)

theorem keyup_immediate_and_keydown_repeat_witness:
  "isDKey 32 \<and>
   isChorded (run startup [KeyDown 56 0, KeyDown 32 1]) \<and>
   overlayState (run startup [KeyDown 56 0, KeyDown 32 1]) = Pressing \<and>
   overlayState (keyup 32 (run startup [KeyDown 56 0, KeyDown 32 1])) = Latched \<and>
   \<not> pressTimer (keyup 32 (run startup [KeyDown 56 0, KeyDown 32 1])) \<and>
   pressStartTime (keydown 32 7 (run startup [KeyDown 56 0, KeyDown 32 1])) = Some 0"
proof -
  have a: "isDKey 32" "isChorded (run startup [KeyDown 56 0, KeyDown 32 1])"
    "overlayState (run startup [KeyDown 56 0, KeyDown 32 1]) = Pressing"
    "stateBeforePressing (run startup [KeyDown 56 0, KeyDown 32 1]) = Some Hidden"
    "dPhysicallyDown (run startup [KeyDown 56 0, KeyDown 32 1])"
    "pressStartTime (run startup [KeyDown 56 0, KeyDown 32 1]) = Some 0"
    by (simp_all add: run_def startup_def controller_defs isAltKey_def isDKey_def)
  show ?thesis
    using a keyup_immediate_and_keydown_repeat
      [of 32 "run startup [KeyDown 56 0, KeyDown 32 1]" 7]
    by simp
qed

section \<open>Short words\<close>

lemma is_space_toLowerCase_char: "is_space (toLowerCase_char c) = is_space c"
  by (auto simp: is_space_def toLowerCase_char_def split: if_splits)

lemma split_ws_aux_map:
  "split_ws_aux (map toLowerCase_char cur) b (map toLowerCase_char s) =
     map (map toLowerCase_char) (split_ws_aux cur b s)"
proof (induction s arbitrary: cur b)
  case Nil
  show ?case by (simp add: rev_map)
next
  case (Cons c s)
  show ?case
    using Cons.IH [of "c # cur"] Cons.IH [of "[]"] Cons.IH [of cur]
    by (simp add: rev_map is_space_toLowerCase_char)
qed

lemma length_toLowerCase: "length (toLowerCase s) = length s"
  by (simp add: toLowerCase_def)

lemma split_ws_toLowerCase: "split_ws (toLowerCase s) = map toLowerCase (split_ws s)"
  using split_ws_aux_map [of "[]" False s]
  by (simp add: split_ws_def toLowerCase_def [abs_def])

lemma keys_count_word:
  "set (map fst (count_word e w)) = set (map fst e) \<union> (if w = ''__proto__'' then {} else {w})"
  by (simp add: count_word_def dom_update)

lemma keys_foldl_count_word:
  "set (map fst (foldl count_word e ws)) = set (map fst e) \<union> {w \<in> set ws. w \<noteq> ''__proto__''}"
proof (induction ws arbitrary: e)
  case Nil
  show ?case by simp
next
  case (Cons w ws)
  show ?case
    unfolding foldl_Cons Cons.IH keys_count_word by auto
qed

lemma keys_generateEmbedding:
  "set (map fst (generateEmbedding text)) =
     {w \<in> set (split_ws (toLowerCase text)). 2 < length w \<and> w \<noteq> ''__proto__''}"
  unfolding generateEmbedding_def Let_def keys_foldl_count_word by auto

lemma semanticSimilarity_Nil: "semanticSimilarity [] e = 0"
  by (simp add: semanticSimilarity_def Let_def)

lemma split_ws_aux_has_cur:
  "\<exists>w \<in> set (split_ws_aux cur False s). length cur \<le> length w"
proof (induction s arbitrary: cur)
  case Nil
  show ?case by simp
next
  case (Cons c s)
  show ?case
  proof (cases "is_space c")
    case True
    then show ?thesis by simp
  next
    case False
    obtain w where "w \<in> set (split_ws_aux (c # cur) False s)" "length (c # cur) \<le> length w"
      using Cons.IH [of "c # cur"] by blast
    then show ?thesis
      using False by (auto intro!: bexI [of _ w])
  qed
qed

lemma short_runs_tokens:
  "length cur \<le> 2 \<Longrightarrow> (b \<longrightarrow> cur = []) \<Longrightarrow>
     (\<forall>w \<in> set (split_ws_aux cur b s). length w \<le> 2) = short_runs (length cur) s"
proof (induction s arbitrary: cur b)
  case Nil
  then show ?case by simp
next
  case (Cons c s)
  show ?case
  proof (cases "is_space c")
    case True
    then show ?thesis
      using Cons.IH [of "[]" True] Cons.prems by auto
  next
    case False
    show ?thesis
    proof (cases "length cur < 2")
      case True
      then show ?thesis
        using Cons.IH [of "c # cur" False] False by simp
    next
      case long: False
      obtain w where w: "w \<in> set (split_ws_aux (c # cur) False s)"
        "length (c # cur) \<le> length w"
        using split_ws_aux_has_cur [of "c # cur" s] by blast
      have "\<not> length w \<le> 2"
        using w(2) long by simp
      then have "\<not> (\<forall>w \<in> set (split_ws_aux (c # cur) False s). length w \<le> 2)"
        using w(1) by blast
      then show ?thesis
        using False long by simp
    qed
  qed
qed

lemma short_runs_split_ws: "(\<forall>w \<in> set (split_ws s). length w \<le> 2) = short_runs 0 s"
  using short_runs_tokens [of "[]" False s] by (simp add: split_ws_def)

lemma short_runs_mono: "short_runs n s \<Longrightarrow> m \<le> n \<Longrightarrow> short_runs m s"
  by (induction s arbitrary: n m) (auto split: if_splits)

lemma short_runs_toLowerCase: "short_runs n (toLowerCase s) = short_runs n s"
  by (induction s arbitrary: n) (auto simp: toLowerCase_def is_space_toLowerCase_char)

lemma short_runs_no_match:
  assumes "short_runs n s" "long_start p"
  shows "\<not> startsWith s p"
proof
  assume "startsWith s p"
  then have s: "s = p @ drop (length p) s"
    by (metis append_take_drop_id startsWith_def)
  obtain a b c r where p: "p = a # b # c # r" "\<not> is_space a" "\<not> is_space b" "\<not> is_space c"
    using assms(2) by (auto simp: long_start_def split: list.splits)
  have "short_runs n (a # b # c # (r @ drop (length p) s))"
    using assms(1) s p(1) by (metis append_Cons)
  then show False
    using p(2-4) by simp
qed

lemma short_runs_tail: "short_runs n (c # cs) \<Longrightarrow> \<exists>m. short_runs m cs"
  by (auto split: if_splits)

lemma short_runs_replace_first: "short_runs n s \<Longrightarrow> long_start p \<Longrightarrow> replace_first s p = s"
proof (induction s arbitrary: n)
  case Nil
  then show ?case by simp
next
  case (Cons c cs)
  from Cons.prems(1) obtain m where "short_runs m cs"
    using short_runs_tail by blast
  then show ?case
    using Cons short_runs_no_match [OF Cons.prems] by simp
qed

lemma short_runs_foldl_replace:
  "short_runs n s \<Longrightarrow> \<forall>p \<in> set ps. long_start p \<Longrightarrow> foldl replace_first s ps = s"
  by (induction ps) (simp_all add: short_runs_replace_first)

lemma short_runs_verb_at: "short_runs n s \<Longrightarrow> verb_at prev s = None"
proof -
  assume a: "short_runs n s"
  have "\<forall>v \<in> set search_verbs. long_start v"
    by (simp add: search_verbs_def long_start_def is_space_def)
  then have "\<forall>v \<in> set search_verbs. \<not> startsWith s v"
    using short_runs_no_match [OF a] by blast
  then have "find (\<lambda>v. startsWith s v \<and>
                         (case drop (length v) s of [] \<Rightarrow> True | c # _ \<Rightarrow> \<not> is_word_char c))
                search_verbs = None"
    by (auto simp: find_None_iff)
  then show ?thesis
    by (simp add: verb_at_def)
qed

lemma short_runs_remove_verbs: "short_runs n s \<Longrightarrow> remove_verbs 0 prev s = s"
proof (induction s arbitrary: n prev)
  case Nil
  then show ?case by simp
next
  case (Cons c cs)
  from Cons.prems obtain m where "short_runs m cs"
    using short_runs_tail by blast
  then show ?case
    using Cons.IH short_runs_verb_at [OF Cons.prems] by simp
qed

lemma short_runs_dropWhile: "short_runs n s \<Longrightarrow> short_runs 0 (dropWhile is_space s)"
  by (induction s arbitrary: n) (auto intro: short_runs_mono split: if_splits)

lemma short_runs_prefix: "short_runs n (xs @ ys) \<Longrightarrow> short_runs n xs"
  by (induction xs arbitrary: n) (auto split: if_splits)

lemma short_runs_trim: "short_runs n s \<Longrightarrow> short_runs 0 (trim s)"
proof -
  assume "short_runs n s"
  then have d: "short_runs 0 (dropWhile is_space s)"
    by (rule short_runs_dropWhile)
  have "dropWhile is_space s =
          trim s @ rev (takeWhile is_space (rev (dropWhile is_space s)))"
    unfolding trim_def
    by (metis rev_append rev_rev_ident takeWhile_dropWhile_id)
  then show ?thesis
    using d short_runs_prefix by metis
qed

lemma topicKeywords_short:
  assumes "short_runs 0 q"
  shows "short_runs 0 (case topicKeywords (parseSearchIntent clk q) of None \<Rightarrow> q | Some k \<Rightarrow> k)"
proof -
  have lq: "short_runs 0 (toLowerCase q)"
    using assms by (simp add: short_runs_toLowerCase)
  have t1: "\<forall>p \<in> set (map fst (timeSignals clk)). long_start p"
    by (simp add: timeSignals_def long_start_def is_space_def)
  have t2: "\<forall>p \<in> set (concat (map snd typeSignals)). long_start p"
    by (simp add: typeSignals_def long_start_def is_space_def)
  have "foldl replace_first (foldl replace_first (toLowerCase q) (map fst (timeSignals clk)))
          (concat (map snd typeSignals)) = toLowerCase q"
    using short_runs_foldl_replace [OF lq t1] short_runs_foldl_replace [OF lq t2] by simp
  then have "topicKeywords (parseSearchIntent clk q) =
        (if trim (toLowerCase q) = [] then None else Some (trim (toLowerCase q)))"
    using short_runs_remove_verbs [OF lq] by (simp add: parseSearchIntent_def Let_def)
  then show ?thesis
    using assms short_runs_trim [OF lq] by simp
qed

lemma generateEmbedding_short:
  assumes "\<forall>w \<in> set (split_ws text). length w \<le> 2"
  shows "generateEmbedding text = []"
proof -
  have "filter (\<lambda>w. 2 < length w) (split_ws (toLowerCase text)) = []"
    using assms by (auto simp: split_ws_toLowerCase filter_empty_conv length_toLowerCase)
  then show ?thesis
    by (simp add: generateEmbedding_def)
qed

lemma semanticScore_short_query:
  assumes "\<forall>w \<in> set (split_ws q). length w \<le> 2"
    and "r \<in> set (results (fst (smartSearch clk q s)))"
  shows "semanticScore r = 0"
proof -
  let ?k = "case topicKeywords (parseSearchIntent clk q) of None \<Rightarrow> q | Some k \<Rightarrow> k"
  have "short_runs 0 ?k"
    using assms(1) by (simp add: short_runs_split_ws topicKeywords_short)
  then have "generateEmbedding ?k = []"
    by (simp add: generateEmbedding_short short_runs_split_ws)
  moreover have "r \<in> set (map (score_item clk (parseSearchIntent clk q) (generateEmbedding ?k)
                                (embeddings (snd (smartSearch clk q s))))
                           (filter (matches_intent (parseSearchIntent clk q)) (items s)))"
    using assms(2) in_set_takeD [of r 20] by (fastforce simp: results_smartSearch rank_def)
  then obtain it where
    "r = score_item clk (parseSearchIntent clk q) (generateEmbedding ?k)
           (embeddings (snd (smartSearch clk q s))) it"
    by auto
  ultimately show ?thesis
    by (simp add: semanticScore_score_item semanticSimilarity_Nil)
qed

text \<open>
  C10. The keys of an embedding are exactly the lower-cased white-space separated tokens
  of the text that are longer than two characters (the token \<^verbatim>\<open>__proto__\<close> apart), so
  every token of length at most 2 is dropped; and a text all of whose tokens have one or
  two characters has the empty embedding, whose similarity to every item embedding is 0.
  As a query, such a text gives every result of \<^verbatim>\<open>smartSearch\<close> the semantic score 0
  (the search intent keeps its words as they are).
\<close>

theorem generateEmbedding_drops_short_tokens:
  "set (map fst (generateEmbedding text)) =
     {w \<in> set (split_ws (toLowerCase text)). 2 < length w \<and> w \<noteq> ''__proto__''}
   \<and> ((\<forall>w \<in> set (split_ws text). length w \<le> 2) \<longrightarrow>
        generateEmbedding text = [] \<and>
        (\<forall>e. semanticSimilarity (generateEmbedding text) e = 0) \<and>
        (\<forall>r \<in> set (results (fst (smartSearch clk text s))). semanticScore r = 0))"
proof (intro conjI impI)
  show "set (map fst (generateEmbedding text)) =
     {w \<in> set (split_ws (toLowerCase text)). 2 < length w \<and> w \<noteq> ''__proto__''}"
    by (rule keys_generateEmbedding)
next
  assume short: "\<forall>w \<in> set (split_ws text). length w \<le> 2"
  then show e: "generateEmbedding text = []"
    by (rule generateEmbedding_short)
  show "\<forall>e. semanticSimilarity (generateEmbedding text) e = 0"
    by (simp add: e semanticSimilarity_Nil)
  show "\<forall>r \<in> set (results (fst (smartSearch clk text s))). semanticScore r = 0"
    using short by (blast intro: semanticScore_short_query)
qed

theorem generateEmbedding_drops_short_tokens_witness:
  "split_ws ''To be or no'' = [''To'', ''be'', ''or'', ''no'']
   \<and> generateEmbedding ''To be or no'' = []
   \<and> semanticSimilarity (generateEmbedding ''To be or no'') [(''not'', 1)] = 0"
proof -
  have words: "split_ws ''To be or no'' = [''To'', ''be'', ''or'', ''no'']"
    by (simp add: split_ws_def is_space_def)
  then have short: "\<forall>w \<in> set (split_ws ''To be or no''). length w \<le> 2"
    by simp
  show ?thesis
    using words short
      generateEmbedding_drops_short_tokens [of "''To be or no''" example_clock
        "example_vault ''/home/a.pdf''"]
    by blast
qed

end
